theory Spec2Isabelle
  imports Main "HOL-Library.Word"
begin

section \<open>Types shared by the reader and the writer\<close>

text \<open>
  Modelled from the spec: the enumeration \<open>TypeTag\<close>. Both headers use it, but its
  declaration lives in a header that is not part of the two files at hand. The spec lists
  the value kinds Bool, Int, Count, Double, Time, Interval, String and a container kind
  that carries a second tag for its elements.
\<close>

datatype TypeTag =
  T_Bool | T_Int | T_Count | T_Double | T_Time | T_Interval | T_String | T_Container

text \<open>
  Modelled from the spec: a schema entry (\<open>LogField\<close> for the reader,
  \<open>threading::Field\<close> for the writer; neither struct is declared in the two headers):
  a name, a tag, and the element tag of a container.
\<close>

record Field =
  field_name :: string
  field_type :: TypeTag
  field_set_type :: TypeTag

type_synonym LogField = Field

section \<open>InputReaderAscii.h: the struct FieldMapping\<close>

text \<open>
  \<^verbatim>\<open>struct FieldMapping { string name; TypeTag type; TypeTag set_type; int position; ... }\<close>
  The member \<open>position\<close> is a C++ \<open>int\<close>: a 32-bit word, read as two's complement by
  \<open>sint\<close>, so that \<open>- 1\<close> is the word \<open>0xFFFFFFFF\<close>.
\<close>

record FieldMapping =
  name :: string
  type :: TypeTag
  set_type :: TypeTag
  position :: "32 word"

text \<open>
  \<^verbatim>\<open>FieldMapping() { position = -1; }\<close>
  The body assigns \<open>position\<close> only. The string member is default-constructed (empty);
  the two tag members are left unset, so their contents are whatever the memory held.
  These indeterminate contents are the two arguments of the model.
\<close>

definition FieldMapping_default :: "TypeTag \<Rightarrow> TypeTag \<Rightarrow> FieldMapping" where
  "FieldMapping_default unset_type unset_set_type =
     \<lparr>name = [], type = unset_type, set_type = unset_set_type, position = - 1\<rparr>"

text \<open>
  Modelled from the spec: the four-argument constructor
  \<^verbatim>\<open>FieldMapping(arg_name, arg_type, arg_set_type, arg_position)\<close>, which the header declares
  without a body. It stores each argument in the member of the same name.
\<close>

definition FieldMapping4 :: "string \<Rightarrow> TypeTag \<Rightarrow> TypeTag \<Rightarrow> 32 word \<Rightarrow> FieldMapping" where
  "FieldMapping4 arg_name arg_type arg_set_type arg_position =
     \<lparr>name = arg_name, type = arg_type, set_type = arg_set_type, position = arg_position\<rparr>"

text \<open>\<^verbatim>\<open>bool IsEmpty() { return position == -1; }\<close>\<close>

definition IsEmpty :: "FieldMapping \<Rightarrow> bool" where
  "IsEmpty m = (position m = - 1)"

section \<open>InputReaderAscii.h: the class InputReaderAscii\<close>

text \<open>
  The data members of the class. The stream \<open>file\<close> is a pointer: \<open>None\<close> is the null or
  closed stream, \<open>Some ls\<close> an open stream with the lines \<open>ls\<close> still to be read. The
  array \<open>fields\<close> is the list \<open>fields'\<close>; the reader looks at its first \<open>num_fields\<close> entries.
\<close>

record InputReaderAscii =
  "file" :: "string list option"
  fname :: string
  num_fields :: "32 word"
  idx_fields :: "32 word"
  columnMap :: "FieldMapping list"
  fields' :: "LogField list"

definition required_fields :: "InputReaderAscii \<Rightarrow> LogField list" where
  "required_fields rd = take (unat (num_fields rd)) (fields' rd)"

text \<open>
  Modelled from the spec: the configuration the spec refers to (the separator of columns,
  the separator of container elements, and the policy for an empty container). The header
  has no member for it.
\<close>

record Config =
  separator :: char
  set_separator :: char
  empty_is_unset :: bool

text \<open>
  Splitting a line at a separator. The empty line has no part at all (the spec's
  "empty split"); otherwise every separator ends a part, also a last empty one.
\<close>

fun split_acc :: "char \<Rightarrow> string \<Rightarrow> string \<Rightarrow> string list" where
  "split_acc c cur [] = [rev cur]"
| "split_acc c cur (x # xs) =
     (if x = c then rev cur # split_acc c [] xs else split_acc c (x # cur) xs)"

definition split_on :: "char \<Rightarrow> string \<Rightarrow> string list" where
  "split_on c s = (if s = [] then [] else split_acc c [] s)"

text \<open>
  Modelled from the spec: \<^verbatim>\<open>bool GetLine(string& str)\<close>, declared without a body. It
  takes the next line off the open stream; it fails on a closed or exhausted stream.
\<close>

definition GetLine :: "InputReaderAscii \<Rightarrow> string option \<times> InputReaderAscii" where
  "GetLine rd =
     (case file rd of
        None \<Rightarrow> (None, rd)
      | Some [] \<Rightarrow> (None, rd)
      | Some (l # ls) \<Rightarrow> (Some l, rd\<lparr>file := Some ls\<rparr>))"

text \<open>
  Modelled from the spec (section 4.1): the derivation of the mapping, which
  \<^verbatim>\<open>bool ReadHeader()\<close> performs and whose body is not in the header. For each required
  field the external column list is searched for a column of exactly that name. The first
  such column gives a mapping with that column's index as position and the field's two
  tags; no such column gives the default-constructed, empty mapping. The argument
  \<open>unset k\<close> stands for the contents of the two tag members that the default constructor
  leaves unset for the \<open>k\<close>-th field.
\<close>

fun find_column :: "string \<Rightarrow> string list \<Rightarrow> nat option" where
  "find_column n [] = None"
| "find_column n (c # cs) =
     (if c = n then Some 0 else map_option Suc (find_column n cs))"

definition derive_entry :: "TypeTag \<times> TypeTag \<Rightarrow> string list \<Rightarrow> LogField \<Rightarrow> FieldMapping" where
  "derive_entry u cols f =
     (case find_column (field_name f) cols of
        None \<Rightarrow> FieldMapping_default (fst u) (snd u)
      | Some i \<Rightarrow> FieldMapping4 (field_name f) (field_type f) (field_set_type f) (of_nat i))"

fun derive_from ::
  "nat \<Rightarrow> (nat \<Rightarrow> TypeTag \<times> TypeTag) \<Rightarrow> string list \<Rightarrow> LogField list \<Rightarrow> FieldMapping list" where
  "derive_from k unset cols [] = []"
| "derive_from k unset cols (f # fs) =
     derive_entry (unset k) cols f # derive_from (Suc k) unset cols fs"

definition derive_mapping ::
  "(nat \<Rightarrow> TypeTag \<times> TypeTag) \<Rightarrow> string list \<Rightarrow> LogField list \<Rightarrow> FieldMapping list" where
  "derive_mapping unset cols fs = derive_from 0 unset cols fs"

text \<open>
  \<open>ReadHeader\<close> reads the header line, splits it into the column names and replaces the
  whole of \<open>columnMap\<close> by the mapping derived from them. Without a header line it reports
  failure and leaves the mapping as it was.
\<close>

definition ReadHeader ::
  "Config \<Rightarrow> (nat \<Rightarrow> TypeTag \<times> TypeTag) \<Rightarrow> InputReaderAscii \<Rightarrow> bool \<times> InputReaderAscii" where
  "ReadHeader cfg unset rd =
     (case GetLine rd of
        (None, rd') \<Rightarrow> (False, rd')
      | (Some line, rd') \<Rightarrow>
          (True, rd'\<lparr>columnMap :=
             derive_mapping unset (split_on (separator cfg) line) (required_fields rd')\<rparr>))"


section \<open>logging/writers/None.h: the writer that discards everything\<close>

text \<open>
  Modelled from the spec: what a writer backend acts on. The class \<open>None\<close> has no data
  member of its own and its base class is not in the header, so the state is the sink of
  the spec: the path of the open sink (\<open>None\<close> once it is closed or released) and the
  records persisted so far, each an array of values.
\<close>

record 'v Writer =
  sink :: "string option"
  persisted :: "'v list list"

text \<open>
  \<^verbatim>\<open>virtual bool DoWrite(int num_fields, const threading::Field* const* fields,
                       threading::Value** vals) { return true; }\<close>
\<close>

definition None_DoWrite :: "32 word \<Rightarrow> Field list \<Rightarrow> 'v list \<Rightarrow> 'v Writer \<Rightarrow> bool \<times> 'v Writer" where
  "None_DoWrite n flds vals w = (True, w)"

text \<open>\<^verbatim>\<open>virtual bool DoSetBuf(bool enabled) { return true; }\<close>\<close>

definition None_DoSetBuf :: "bool \<Rightarrow> 'v Writer \<Rightarrow> bool \<times> 'v Writer" where
  "None_DoSetBuf enabled w = (True, w)"

text \<open>\<^verbatim>\<open>virtual bool DoFlush() { return true; }\<close>\<close>

definition None_DoFlush :: "'v Writer \<Rightarrow> bool \<times> 'v Writer" where
  "None_DoFlush w = (True, w)"

text \<open>
  Modelled from the spec (section 4.4): \<^verbatim>\<open>bool DoRotate(string rotated_path,
  const RotateInfo& info, bool terminating)\<close>, declared in the header without a body. The
  writer "still pretends to rotate": the current sink is closed and, unless the rotation
  is the terminating one, a new sink is opened at the new path; a backend that discards
  everything reports success and persists nothing.
\<close>

definition None_DoRotate :: "string \<Rightarrow> 'ri \<Rightarrow> bool \<Rightarrow> 'v Writer \<Rightarrow> bool \<times> 'v Writer" where
  "None_DoRotate rotated_path info terminating w =
     (True, w\<lparr>sink := (if terminating then None else Some rotated_path)\<rparr>)"

text \<open>
  A call of one of the four operations, and a run of calls on one writer: the statuses
  reported, in order, and the writer afterwards.
\<close>

datatype ('v, 'ri) writer_call =
  Write "32 word" "Field list" "'v list"
| SetBuf bool
| Flush
| Rotate string 'ri bool

fun None_call :: "('v, 'ri) writer_call \<Rightarrow> 'v Writer \<Rightarrow> bool \<times> 'v Writer" where
  "None_call (Write n flds vals) w = None_DoWrite n flds vals w"
| "None_call (SetBuf enabled) w = None_DoSetBuf enabled w"
| "None_call Flush w = None_DoFlush w"
| "None_call (Rotate rotated_path info terminating) w =
     None_DoRotate rotated_path info terminating w"

fun None_run :: "('v, 'ri) writer_call list \<Rightarrow> 'v Writer \<Rightarrow> bool list \<times> 'v Writer" where
  "None_run [] w = ([], w)"
| "None_run (c # cs) w =
     (case None_call c w of (ok, w') \<Rightarrow>
        (case None_run cs w' of (oks, w'') \<Rightarrow> (ok # oks, w'')))"

section \<open>Sample inputs\<close>

text \<open>
  The three-column source of the spec's end-to-end example (\<open>id\<close>, \<open>name\<close>, \<open>tags\<close>),
  read against a schema that asks for \<open>id\<close>, \<open>tags\<close> and a column \<open>port\<close> the
  source does not have; a filling of the unset tag members; a writer with an open sink.
\<close>

definition sample_schema :: "LogField list" where
  "sample_schema =
     [\<lparr>field_name = ''id'', field_type = T_Count, field_set_type = T_Count\<rparr>,
      \<lparr>field_name = ''tags'', field_type = T_Container, field_set_type = T_String\<rparr>,
      \<lparr>field_name = ''port'', field_type = T_Count, field_set_type = T_Count\<rparr>]"

definition sample_reader :: InputReaderAscii where
  "sample_reader =
     \<lparr>file = Some [''id,name,tags'', ''1,alice,x|y'', ''2,bob,''], fname = ''in.log'',
      num_fields = 3, idx_fields = 1, columnMap = [], fields' = sample_schema\<rparr>"

definition sample_config :: Config where
  "sample_config = \<lparr>separator = CHR '','', set_separator = CHR ''|'', empty_is_unset = False\<rparr>"

definition unset_a :: "nat \<Rightarrow> TypeTag \<times> TypeTag" where
  "unset_a k = (T_Bool, T_Bool)"

definition sample_writer :: "string Writer" where
  "sample_writer = \<lparr>sink = Some ''out.log'', persisted = []\<rparr>"

definition sample_field :: Field where
  "sample_field = \<lparr>field_name = ''id'', field_type = T_Count, field_set_type = T_Count\<rparr>"

section \<open>The empty mapping\<close>

text \<open>
  C5. For every FieldMapping, \<open>IsEmpty\<close> holds exactly when \<open>position\<close> is \<open>- 1\<close>, and
  the verdict does not change when the members \<open>name\<close>, \<open>type\<close> and \<open>set_type\<close> are
  replaced by anything else.
\<close>

theorem IsEmpty_iff_position:
  "IsEmpty m = (position m = - 1) \<and>
   IsEmpty (m\<lparr>name := n, type := t, set_type := s\<rparr>) = IsEmpty m"
  by (simp add: IsEmpty_def)

text \<open>
  C9. The default constructor yields position \<open>- 1\<close>, whatever the unset tag members
  hold, and the mapping it yields is empty.
\<close>

theorem FieldMapping_default_empty:
  "position (FieldMapping_default t s) = - 1 \<and> IsEmpty (FieldMapping_default t s)"
  by (simp add: FieldMapping_default_def IsEmpty_def)

section \<open>Deriving the mapping\<close>

subsection \<open>A column index as a C++ int\<close>

lemma sint_of_nat_32:
  assumes "i < 2 ^ 31"
  shows "sint (of_nat i :: 32 word) = int i"
proof -
  have "sint (of_nat i :: 32 word) = signed_take_bit 31 (int i)"
    by (simp add: signed_of_nat)
  also have "\<dots> = int i"
    using assms by (intro signed_take_bit_int_eq_self) auto
  finally show ?thesis .
qed

subsection \<open>Searching the column list\<close>

lemma find_column_None: "(find_column n cs = None) = (n \<notin> set cs)"
  by (induction cs) auto

lemma find_column_Some:
  "find_column n cs = Some i \<Longrightarrow> i < length cs \<and> cs ! i = n \<and> (\<forall>j<i. cs ! j \<noteq> n)"
proof (induction cs arbitrary: i)
  case Nil
  then show ?case by simp
next
  case (Cons c cs)
  show ?case
  proof (cases "c = n")
    case True
    with Cons.prems show ?thesis by simp
  next
    case False
    with Cons.prems obtain i' where i': "find_column n cs = Some i'" "i = Suc i'"
      by auto
    from Cons.IH [OF i'(1)] have ih: "i' < length cs" "cs ! i' = n" "\<forall>j<i'. cs ! j \<noteq> n"
      by simp_all
    have "\<forall>j<Suc i'. (c # cs) ! j \<noteq> n"
    proof (intro allI impI)
      fix j assume "j < Suc i'"
      then show "(c # cs) ! j \<noteq> n"
        using False ih(3) by (cases j) auto
    qed
    with ih i'(2) show ?thesis by simp
  qed
qed

subsection \<open>One mapping per required field\<close>

lemma derive_from_length: "length (derive_from k unset cols fs) = length fs"
  by (induction fs arbitrary: k) simp_all

lemma derive_from_nth:
  "j < length fs \<Longrightarrow> derive_from k unset cols fs ! j = derive_entry (unset (k + j)) cols (fs ! j)"
proof (induction fs arbitrary: k j)
  case Nil
  then show ?case by simp
next
  case (Cons f fs)
  then show ?case by (cases j) simp_all
qed

lemma derive_entry_present:
  assumes "field_name f \<in> set cols" and "length cols < 2 ^ 31"
  shows "\<exists>i<length cols. cols ! i = field_name f \<and> (\<forall>j<i. cols ! j \<noteq> field_name f) \<and>
           derive_entry u cols f =
             FieldMapping4 (field_name f) (field_type f) (field_set_type f) (of_nat i) \<and>
           sint (position (derive_entry u cols f)) = int i"
proof -
  from assms(1) obtain i where i: "find_column (field_name f) cols = Some i"
    using find_column_None [of "field_name f" cols]
    by (cases "find_column (field_name f) cols") auto
  from find_column_Some [OF i] have p: "i < length cols" "cols ! i = field_name f"
    "\<forall>j<i. cols ! j \<noteq> field_name f" by simp_all
  from p(1) assms(2) have "i < 2 ^ 31" by simp
  then have "sint (of_nat i :: 32 word) = int i" by (rule sint_of_nat_32)
  with i p show ?thesis by (auto simp: derive_entry_def FieldMapping4_def)
qed

lemma derive_entry_absent:
  "field_name f \<notin> set cols \<Longrightarrow> derive_entry u cols f = FieldMapping_default (fst u) (snd u)"
  by (simp add: derive_entry_def find_column_None [symmetric])

subsection \<open>Reading a header\<close>

lemma ReadHeader_Some:
  "file rd = Some (line # rest) \<Longrightarrow>
   ReadHeader cfg unset rd =
     (True, rd\<lparr>file := Some rest,
               columnMap := derive_mapping unset (split_on (separator cfg) line) (required_fields rd)\<rparr>)"
  by (simp add: ReadHeader_def GetLine_def required_fields_def)


lemma sample_required: "required_fields sample_reader = sample_schema"
  by (simp add: required_fields_def sample_reader_def sample_schema_def)

lemma sample_columns:
  "[''id'', ''name'', ''tags''] = split_on (separator sample_config) ''id,name,tags''"
  by (simp add: sample_config_def split_on_def)

text \<open>
  C1. After a header has been read, \<open>columnMap\<close> has one mapping per required field. For a
  required field whose name occurs in the column list, the mapping's position is the index
  of the first column of that name (so it is not negative and the mapping is not empty),
  and its name and two tags are the field's. For a required field whose name does not
  occur, the mapping is the default-constructed one: its position is \<open>- 1\<close> and it is
  empty. The column list is short enough for an index to fit the \<open>int\<close> member.
\<close>

theorem ReadHeader_columnMap_postcondition:
  assumes "file rd = Some (line # rest)"
    and "cols = split_on (separator cfg) line"
    and "length cols < 2 ^ 31"
    and "k < length (required_fields rd)"
    and "f = required_fields rd ! k"
    and "m = columnMap (snd (ReadHeader cfg unset rd)) ! k"
  shows "length (columnMap (snd (ReadHeader cfg unset rd))) = length (required_fields rd) \<and>
    (field_name f \<in> set cols \<longrightarrow>
       (\<exists>i<length cols. cols ! i = field_name f \<and> (\<forall>j<i. cols ! j \<noteq> field_name f) \<and>
          position m = of_nat i \<and> sint (position m) = int i) \<and>
       0 \<le> sint (position m) \<and> \<not> IsEmpty m \<and>
       name m = field_name f \<and> type m = field_type f \<and> set_type m = field_set_type f) \<and>
    (field_name f \<notin> set cols \<longrightarrow>
       m = FieldMapping_default (fst (unset k)) (snd (unset k)) \<and> position m = - 1 \<and> IsEmpty m)"
proof -
  have cm: "columnMap (snd (ReadHeader cfg unset rd)) = derive_from 0 unset cols (required_fields rd)"
    using assms(1,2) by (simp add: ReadHeader_Some derive_mapping_def)
  have m: "m = derive_entry (unset k) cols f"
    using assms(4,5,6) by (simp add: cm derive_from_nth)
  have len: "length (columnMap (snd (ReadHeader cfg unset rd))) = length (required_fields rd)"
    by (simp add: cm derive_from_length)
  have pres: "\<exists>i<length cols. cols ! i = field_name f \<and> (\<forall>j<i. cols ! j \<noteq> field_name f) \<and>
          position m = of_nat i \<and> sint (position m) = int i"
    and pres': "0 \<le> sint (position m) \<and> \<not> IsEmpty m \<and>
       name m = field_name f \<and> type m = field_type f \<and> set_type m = field_set_type f"
    if "field_name f \<in> set cols"
  proof -
    from derive_entry_present [OF that assms(3), of "unset k"] obtain i where
      i: "i < length cols" "cols ! i = field_name f" "\<forall>j<i. cols ! j \<noteq> field_name f"
         "m = FieldMapping4 (field_name f) (field_type f) (field_set_type f) (of_nat i)"
         "sint (position m) = int i"
      unfolding m by blast
    from i show "\<exists>i<length cols. cols ! i = field_name f \<and> (\<forall>j<i. cols ! j \<noteq> field_name f) \<and>
          position m = of_nat i \<and> sint (position m) = int i"
      by (auto simp: FieldMapping4_def)
    have "position m \<noteq> - 1"
    proof
      assume "position m = - 1"
      then have "sint (position m) = - 1" by simp
      with i(5) show False by simp
    qed
    with i(4,5) show "0 \<le> sint (position m) \<and> \<not> IsEmpty m \<and>
       name m = field_name f \<and> type m = field_type f \<and> set_type m = field_set_type f"
      by (simp add: FieldMapping4_def IsEmpty_def)
  qed
  have absent: "m = FieldMapping_default (fst (unset k)) (snd (unset k)) \<and> position m = - 1 \<and> IsEmpty m"
    if "field_name f \<notin> set cols"
    using derive_entry_absent [OF that, of "unset k"]
    by (simp add: m FieldMapping_default_def IsEmpty_def)
  from len pres pres' absent show ?thesis by blast
qed

text \<open>
  On the sample source: the required field \<open>tags\<close> is the third column, so its mapping
  has position 2 and the tags of the field; the required field \<open>port\<close> is no column, so
  its mapping is empty.
\<close>

theorem ReadHeader_columnMap_postcondition_witness:
  "sint (position (columnMap (snd (ReadHeader sample_config unset_a sample_reader)) ! 1)) = 2 \<and>
   type (columnMap (snd (ReadHeader sample_config unset_a sample_reader)) ! 1) = T_Container \<and>
   set_type (columnMap (snd (ReadHeader sample_config unset_a sample_reader)) ! 1) = T_String \<and>
   IsEmpty (columnMap (snd (ReadHeader sample_config unset_a sample_reader)) ! 2)"
proof -
  let ?line = "''id,name,tags''"
  let ?rest = "[''1,alice,x|y'', ''2,bob,'']"
  let ?cols = "[''id'', ''name'', ''tags'']"
  let ?m = "columnMap (snd (ReadHeader sample_config unset_a sample_reader)) ! 1"
  have f: "file sample_reader = Some (?line # ?rest)"
    by (simp add: sample_reader_def)
  have l: "length ?cols < 2 ^ 31" by simp
  have k1: "1 < length (required_fields sample_reader)"
    and k2: "2 < length (required_fields sample_reader)"
    by (simp_all add: sample_required sample_schema_def)
  note t1 = ReadHeader_columnMap_postcondition [OF f sample_columns l k1 refl refl, of unset_a]
  note t2 = ReadHeader_columnMap_postcondition [OF f sample_columns l k2 refl refl, of unset_a]
  from t1 obtain i where i: "i < length ?cols" "?cols ! i = ''tags''" "sint (position ?m) = int i"
    and ty: "type ?m = T_Container" "set_type ?m = T_String"
    by (auto simp: sample_required sample_schema_def)
  from i(1) have "i = 0 \<or> i = 1 \<or> i = 2" by auto
  with i(2) have "i = 2" by auto
  with i(3) have p: "sint (position ?m) = 2" by simp
  from t2 have e: "IsEmpty (columnMap (snd (ReadHeader sample_config unset_a sample_reader)) ! 2)"
    by (simp add: sample_required sample_schema_def FieldMapping_default_def IsEmpty_def)
  from p ty e show ?thesis by simp
qed

subsection \<open>Deriving the mapping again\<close>




section \<open>The None writer\<close>

text \<open>
  C10. The status \<open>None::DoWrite\<close> returns does not depend on any of its arguments nor on
  the writer: two calls with arbitrary arguments return the same status, and it is true.
\<close>

theorem None_DoWrite_status_constant:
  "fst (None_DoWrite n flds vals w) = fst (None_DoWrite n' flds' vals' w') \<and>
   fst (None_DoWrite n flds vals w) = True"
  by (simp add: None_DoWrite_def)

subsection \<open>A value array of the wrong length\<close>

text \<open>
  C2, as stated, fails for \<open>None::DoWrite\<close>: handed a schema of one field and an array of
  no value, it reports success, not failure.
\<close>

theorem None_DoWrite_arity_counterexample:
  "length ([] :: string list) \<noteq> length [sample_field] \<and>
   fst (None_DoWrite 1 [sample_field] ([] :: string list) sample_writer) \<noteq> False"
  by (simp add: None_DoWrite_def)

text \<open>
  C2, amended. For a value array whose length differs from the length of the schema,
  \<open>None::DoWrite\<close> reports success and leaves the writer as it was: it checks no arity
  and persists no record.
\<close>

theorem None_DoWrite_arity_mismatch:
  "length vals \<noteq> length flds \<Longrightarrow>
   fst (None_DoWrite n flds vals w) = True \<and> snd (None_DoWrite n flds vals w) = w \<and>
   persisted (snd (None_DoWrite n flds vals w)) = persisted w"
  by (simp add: None_DoWrite_def)

text \<open>An array of one value against the empty schema, on the sample writer.\<close>

theorem None_DoWrite_arity_mismatch_witness:
  "length [''x''] \<noteq> length ([] :: Field list) \<and>
   fst (None_DoWrite 0 [] [''x''] sample_writer) = True \<and>
   persisted (snd (None_DoWrite 0 [] [''x''] sample_writer)) = []"
proof -
  have h: "length [''x''] \<noteq> length ([] :: Field list)" by simp
  from None_DoWrite_arity_mismatch [OF h, of 0 sample_writer] h show ?thesis
    by (simp add: sample_writer_def)
qed

subsection \<open>Runs of calls\<close>

lemma None_run_Writes:
  "None_run (map (\<lambda>(n, flds, vals). Write n flds vals) ws) w = (replicate (length ws) True, w)"
  by (induction ws) (auto simp: None_DoWrite_def)

lemma None_call_ok: "fst (None_call c w) = True \<and> persisted (snd (None_call c w)) = persisted w"
  by (cases c) (simp_all add: None_DoWrite_def None_DoSetBuf_def None_DoFlush_def None_DoRotate_def)

lemma None_run_ok:
  "fst (None_run cs w) = replicate (length cs) True \<and> persisted (snd (None_run cs w)) = persisted w"
proof (induction cs arbitrary: w)
  case Nil
  show ?case by simp
next
  case (Cons c cs)
  obtain ok w' where c: "None_call c w = (ok, w')"
    by (cases "None_call c w")
  obtain oks w'' where r: "None_run cs w' = (oks, w'')"
    by (cases "None_run cs w'")
  from None_call_ok [of c w] c have 1: "ok = True" "persisted w' = persisted w"
    by simp_all
  from Cons.IH [of w'] r have 2: "oks = replicate (length cs) True" "persisted w'' = persisted w'"
    by simp_all
  show ?case using c r 1 2 by simp
qed

text \<open>
  C3, as stated, fails for the None writer: the terminating rotation closes the sink of
  the sample writer, and the write that follows reports success, not failure.
\<close>

theorem None_DoWrite_after_Rotate_counterexample:
  "sink (snd (None_DoRotate ''rotated.log'' () True sample_writer)) = None \<and>
   fst (None_DoWrite 1 [sample_field] [''7'']
          (snd (None_DoRotate ''rotated.log'' () True sample_writer))) \<noteq> False"
  by (simp add: None_DoWrite_def None_DoRotate_def)

text \<open>
  C3, amended. After a rotation with \<open>terminating = true\<close> on the None writer, which
  itself reports success, every write of any run of writes that follows reports success,
  and the writer stays as the rotation left it: the sink closed, nothing persisted.
\<close>

theorem None_DoWrite_after_Rotate:
  "fst (None_DoRotate p info True w) = True \<and>
   None_run (map (\<lambda>(n, flds, vals). Write n flds vals) ws) (snd (None_DoRotate p info True w))
     = (replicate (length ws) True, w\<lparr>sink := None\<rparr>)"
  by (simp add: None_run_Writes None_DoRotate_def)

text \<open>
  C4. Every call of a run of Write, SetBuf, Flush and Rotate calls on the None writer
  reports success, and the run persists nothing: the persisted records are those from
  before the run, none for a writer that starts with none.
\<close>

theorem None_run_success:
  "fst (None_run cs w) = replicate (length cs) True \<and>
   persisted (snd (None_run cs w)) = persisted w \<and>
   persisted (snd (None_run cs (w\<lparr>persisted := []\<rparr>))) = []"
  using None_run_ok [of cs w] None_run_ok [of cs "w\<lparr>persisted := []\<rparr>"] by simp

end
